theory Spec2Isabelle
  imports Complex_Main "HOL-Library.AList"
begin

section \<open>Text and dictionaries\<close>

text \<open>
  A Python \<open>str\<close> is a sequence of Unicode code points; it is modelled as a list of
  natural numbers, one per code point. String constants of the source are written
  \<open>codes ''...''\<close>; a non-ASCII letter is written as its code point.
\<close>

type_synonym pystr = "nat list"

definition codes :: "string \<Rightarrow> pystr" where
  "codes s = map of_char s"

text \<open>
  A \<open>dict\<close> keeps its keys in insertion order, and the source depends on that order
  (\<open>list(d.items())\<close>, \<open>max(d, key=...)\<close>, slicing the key list), so a dict is an
  association list. \<open>d[k] = v\<close> is \<open>AList.update\<close>: it overwrites in place or appends.
\<close>

type_synonym 'v pydict = "(pystr \<times> 'v) list"

definition dict_get :: "'v pydict \<Rightarrow> pystr \<Rightarrow> 'v \<Rightarrow> 'v" where
  "dict_get d k dflt = (case map_of d k of Some v \<Rightarrow> v | None \<Rightarrow> dflt)"

definition dict_pop :: "'v pydict \<Rightarrow> pystr \<Rightarrow> 'v pydict" where
  "dict_pop d k = filter (\<lambda>kv. fst kv \<noteq> k) d"

section \<open>State snapshot and heuristics\<close>

text \<open>
  \<open>InfoPuesto\<close> as the engine uses it: \<open>Recursos\<close> and \<open>Objetivo\<close>. The mailbox
  (\<open>Buzon\<close>) is ingested by the cycle driver and passed on its own.
\<close>

record InfoPuesto =
  Alias :: pystr
  Recursos :: "int pydict"
  Objetivo :: "int pydict"

fun faltantes_loop :: "int pydict \<Rightarrow> int pydict \<Rightarrow> int pydict \<Rightarrow> int pydict" where
  "faltantes_loop rec [] f = f"
| "faltantes_loop rec ((r, obj) # rest) f =
     (let cur = dict_get rec r 0
      in if cur < obj then faltantes_loop rec rest (AList.update r (obj - cur) f)
         else faltantes_loop rec rest f)"

definition faltantes :: "InfoPuesto \<Rightarrow> int pydict" where
  "faltantes estado = faltantes_loop (Recursos estado) (Objetivo estado) []"

fun excedentes_loop :: "int pydict \<Rightarrow> int pydict \<Rightarrow> int pydict \<Rightarrow> int pydict" where
  "excedentes_loop objv [] exc = exc"
| "excedentes_loop objv ((r, qty) # rest) exc =
     (if r = codes ''oro'' then excedentes_loop objv rest exc
      else
        let obj = dict_get objv r 0;
            exc1 = (if qty > obj then AList.update r (qty - obj) exc else exc);
            exc2 = (if r \<notin> fst ` set objv \<and> qty > 0
                    then AList.update r (max (dict_get exc1 r 0) qty) exc1 else exc1)
        in excedentes_loop objv rest exc2)"

definition excedentes :: "InfoPuesto \<Rightarrow> int pydict" where
  "excedentes estado = excedentes_loop (Objetivo estado) (Recursos estado) []"


definition can_give :: "bool \<Rightarrow> InfoPuesto \<Rightarrow> pystr \<Rightarrow> int \<Rightarrow> bool" where
  \<comment> \<open>The first argument is the flag \<open>ALLOW_BREAK_OBJECTIVE\<close>.\<close>
  "can_give allow_break estado item qty =
     (let have = dict_get (Recursos estado) item 0
      in if have < qty then False
         else if allow_break then True
         else let obj = dict_get (Objetivo estado) item 0 in have - obj \<ge> qty)"

section \<open>The interpreter's part\<close>

text \<open>
  What the source leaves to the Python runtime and its library, as far as the results
  depend on it. \<open>int_max_str_digits\<close> is \<open>sys.get_int_max_str_digits()\<close>: converting
  between \<open>int\<close> and \<open>str\<close> raises \<open>ValueError\<close> beyond that many digits (4300 unless
  reconfigured; 0 switches the limit off). \<open>json_max_depth\<close> is the nesting depth at which
  the JSON decoder raises \<open>RecursionError\<close>. The Unicode tables are written out for
  the code points below 256; beyond, the decimal digits (category Nd) and
  \<open>str.lower\<close> are parameters, as is the conversion \<open>int(float(...))\<close> of a JSON
  number with a fraction or an exponent, given by its lexeme.
\<close>

datatype exn = ValueError | TypeError | OverflowError | RecursionError | JSONDecodeError
  | RequestException

record runtime =
  int_max_str_digits :: nat
  json_max_depth :: nat
  unicode_decimal :: "nat \<Rightarrow> nat option"
  unicode_lower :: "pystr \<Rightarrow> pystr"
  float_to_int :: "pystr \<Rightarrow> exn + int"

definition is_space :: "nat \<Rightarrow> bool" where
  \<comment> \<open>\<open>str.isspace\<close>, which \<open>str.strip()\<close> and the pattern \<open>\s\<close> use.\<close>
  "is_space c = ((9 \<le> c \<and> c \<le> 13) \<or> (28 \<le> c \<and> c \<le> 32) \<or> c = 133 \<or> c = 160
     \<or> c = 5760 \<or> (8192 \<le> c \<and> c \<le> 8202) \<or> c = 8232 \<or> c = 8233 \<or> c = 8239
     \<or> c = 8287 \<or> c = 12288)"

definition py_strip :: "pystr \<Rightarrow> pystr" where
  "py_strip s = rev (dropWhile is_space (rev (dropWhile is_space s)))"

definition decimal_value :: "runtime \<Rightarrow> nat \<Rightarrow> nat option" where
  \<comment> \<open>The digit a decimal character stands for: \<open>\d\<close> matches where this is defined.\<close>
  "decimal_value R c =
     (if 48 \<le> c \<and> c \<le> 57 then Some (c - 48)
      else if c < 256 then None else unicode_decimal R c)"

definition is_decimal :: "runtime \<Rightarrow> nat \<Rightarrow> bool" where
  "is_decimal R c = (decimal_value R c \<noteq> None)"

definition latin1_lower :: "nat \<Rightarrow> nat" where
  "latin1_lower c =
     (if (65 \<le> c \<and> c \<le> 90) \<or> (192 \<le> c \<and> c \<le> 222 \<and> c \<noteq> 215) then c + 32 else c)"

definition py_lower :: "runtime \<Rightarrow> pystr \<Rightarrow> pystr" where
  "py_lower R s = (if list_all (\<lambda>c. c < 256) s then map latin1_lower s else unicode_lower R s)"

subsection \<open>Integers and their decimal form\<close>

fun nat_digits :: "nat \<Rightarrow> pystr" where
  "nat_digits n = (if n < 10 then [48 + n] else nat_digits (n div 10) @ [48 + n mod 10])"

definition py_str_int :: "runtime \<Rightarrow> int \<Rightarrow> exn + pystr" where
  \<comment> \<open>\<open>str(n)\<close>, also what an f-string and \<open>json.dumps\<close> write for an int.\<close>
  "py_str_int R n =
     (let ds = nat_digits (nat \<bar>n\<bar>)
      in if 0 < int_max_str_digits R \<and> int_max_str_digits R < length ds then Inl ValueError
         else Inr (if n < 0 then 45 # ds else ds))"

definition int_space :: "nat \<Rightarrow> bool" where
  \<comment> \<open>The blanks \<open>int(str)\<close> strips: C's \<open>isspace\<close> below 127, \<open>str.isspace\<close> from there.\<close>
  "int_space c = ((9 \<le> c \<and> c \<le> 13) \<or> c = 32 \<or> (127 \<le> c \<and> is_space c))"

fun digit_groups :: "runtime \<Rightarrow> pystr \<Rightarrow> nat list option" where
  \<comment> \<open>Digits, single underscores allowed between them; the digit values.\<close>
  "digit_groups R [] = None"
| "digit_groups R [c] = map_option (\<lambda>d. [d]) (decimal_value R c)"
| "digit_groups R (c # c' # cs) =
     (case decimal_value R c of None \<Rightarrow> None
      | Some d \<Rightarrow> map_option ((#) d) (digit_groups R (if c' = 95 then cs else c' # cs)))"

definition digits_value :: "nat list \<Rightarrow> nat" where
  "digits_value ds = foldl (\<lambda>a d. 10 * a + d) 0 ds"

definition py_int_str :: "runtime \<Rightarrow> pystr \<Rightarrow> exn + int" where
  \<comment> \<open>\<open>int(s)\<close> for a string \<open>s\<close>.\<close>
  "py_int_str R s =
     (let t = rev (dropWhile int_space (rev (dropWhile int_space s)));
          neg = (case t of c # _ \<Rightarrow> c = 45 | [] \<Rightarrow> False);
          u = (case t of c # cs \<Rightarrow> if c = 45 \<or> c = 43 then cs else t | [] \<Rightarrow> [])
      in case digit_groups R u of
           None \<Rightarrow> Inl ValueError
         | Some ds \<Rightarrow>
             if 0 < int_max_str_digits R \<and> int_max_str_digits R < length ds then Inl ValueError
             else Inr (if neg then - int (digits_value ds) else int (digits_value ds)))"

section \<open>Regular expressions\<close>

text \<open>
  The three patterns of the source are sequences of one-character items, each taken
  once, greedily any number of times (\<open>*\<close>) or lazily any number of times (\<open>*?\<close>); \<open>+\<close>
  is one followed by \<open>*\<close>. An item carries the number of the group it lies in (0 for
  none). \<open>rmatch\<close> is the backtracking matcher of \<open>re\<close> at one start position: it
  returns the text each item consumed in the first match in \<open>re\<close>'s order of preference.
  \<open>re_search\<close> tries the start positions from the left, as \<open>Pattern.search\<close> does.
\<close>

datatype quant = One | Star | Lazy

type_synonym atom = "quant \<times> (nat \<Rightarrow> bool) \<times> nat"

fun rmatch :: "atom list \<Rightarrow> pystr \<Rightarrow> pystr list option" where
  "rmatch [] s = Some []"
| "rmatch ((One, p, g) # r) [] = None"
| "rmatch ((One, p, g) # r) (c # cs) =
     (if p c then map_option ((#) [c]) (rmatch r cs) else None)"
| "rmatch ((Star, p, g) # r) [] = map_option ((#) []) (rmatch r [])"
| "rmatch ((Star, p, g) # r) (c # cs) =
     (if p c
      then (case rmatch ((Star, p, g) # r) cs of
              Some (x # xs) \<Rightarrow> Some ((c # x) # xs)
            | _ \<Rightarrow> map_option ((#) []) (rmatch r (c # cs)))
      else map_option ((#) []) (rmatch r (c # cs)))"
| "rmatch ((Lazy, p, g) # r) s =
     (case rmatch r s of
        Some xs \<Rightarrow> Some ([] # xs)
      | None \<Rightarrow>
          (case s of
             [] \<Rightarrow> None
           | c # cs \<Rightarrow>
               if p c
               then (case rmatch ((Lazy, p, g) # r) cs of
                       Some (x # xs) \<Rightarrow> Some ((c # x) # xs)
                     | _ \<Rightarrow> None)
               else None))"

fun rsearch :: "atom list \<Rightarrow> pystr \<Rightarrow> pystr list option" where
  "rsearch pat [] = rmatch pat []"
| "rsearch pat (c # cs) =
     (case rmatch pat (c # cs) of Some res \<Rightarrow> Some res | None \<Rightarrow> rsearch pat cs)"

definition re_group :: "atom list \<Rightarrow> pystr list \<Rightarrow> nat \<Rightarrow> pystr" where
  "re_group pat res g = concat (map snd (filter (\<lambda>ax. snd (snd (fst ax)) = g) (zip pat res)))"

definition re_search :: "atom list \<Rightarrow> pystr \<Rightarrow> (nat \<Rightarrow> pystr) option" where
  "re_search pat s = map_option (re_group pat) (rsearch pat s)"

text \<open>
  Under \<open>re.IGNORECASE\<close> a character of the pattern matches the characters with the same
  lower case, and \<open>i\<close> and \<open>s\<close> also match U+0130, U+0131 and U+017F. \<open>sre_lower\<close> sends
  each character that can match an ASCII character to it.
\<close>

definition sre_lower :: "nat \<Rightarrow> nat" where
  "sre_lower c =
     (if 65 \<le> c \<and> c \<le> 90 then c + 32
      else if c = 304 \<or> c = 305 then 105
      else if c = 383 then 115
      else if c = 8490 then 107
      else c)"

definition ci :: "nat \<Rightarrow> nat \<Rightarrow> bool" where
  "ci p c = (sre_lower c = sre_lower p)"

definition lit :: "string \<Rightarrow> atom list" where
  \<comment> \<open>A literal run of ASCII characters, read case-insensitively.\<close>
  "lit s = map (\<lambda>p. (One, ci (of_char p), 0)) s"

definition item_char :: "nat \<Rightarrow> bool" where
  \<comment> \<open>The class of the item names, \<open>a-z\<close>, \<open>A-Z\<close> and the accented letters, case-insensitively.\<close>
  "item_char c =
     ((97 \<le> sre_lower c \<and> sre_lower c \<le> 122)
      \<or> c = 225 \<or> c = 233 \<or> c = 237 \<or> c = 243 \<or> c = 250 \<or> c = 241
      \<or> c = 193 \<or> c = 201 \<or> c = 205 \<or> c = 211 \<or> c = 218 \<or> c = 209)"

definition braces :: "nat \<Rightarrow> atom list" where
  \<comment> \<open>The group \<open>(\{.*?\})\<close>; the dot matches all but the line feed.\<close>
  "braces g = [(One, (\<lambda>c. c = 123), g), (Lazy, (\<lambda>c. c \<noteq> 10), g), (One, (\<lambda>c. c = 125), g)]"

definition TAG_OFFER_RE :: "atom list" where
  "TAG_OFFER_RE =
     lit ''[OFERTA_V1]'' @ [(Star, is_space, 0)] @ lit ''quiero='' @ braces 1
     @ [(Star, is_space, 0)] @ lit ''ofrezco='' @ braces 2"

definition TAG_ACCEPT_RE :: "atom list" where
  "TAG_ACCEPT_RE =
     lit ''[ACEPTO_V1]'' @ [(Star, is_space, 0)] @ lit ''te_envio='' @ braces 1
     @ [(Star, is_space, 0)] @ lit ''espero='' @ braces 2"

definition spaces1 :: "atom list" where
  "spaces1 = [(One, is_space, 0), (Star, is_space, 0)]"

definition number1 :: "runtime \<Rightarrow> nat \<Rightarrow> atom list" where
  "number1 R g = [(One, is_decimal R, g), (Star, is_decimal R, g)]"

definition item1 :: "nat \<Rightarrow> atom list" where
  "item1 g = [(One, item_char, g), (Star, item_char, g)]"

definition o_or_a :: "atom list" where
  "o_or_a = [(One, (\<lambda>c. ci 111 c \<or> ci 97 c), 0)]"

definition OFFER_RE :: "runtime \<Rightarrow> atom list" where
  \<comment> \<open>With \<open>re.DOTALL\<close> the lazy dot matches every character.\<close>
  "OFFER_RE R =
     lit ''necesit'' @ o_or_a @ spaces1 @ number1 R 1 @ spaces1 @ item1 2
     @ [(Lazy, (\<lambda>c. True), 0)]
     @ lit ''ofrezc'' @ o_or_a @ spaces1 @ number1 R 3 @ spaces1 @ item1 4"

section \<open>JSON\<close>

text \<open>
  \<open>json.loads\<close> and \<open>json.dumps\<close> as the source calls them (no hooks,
  \<open>ensure_ascii=False\<close>). A number with a fraction or an exponent, \<open>NaN\<close> and the
  infinities become a float, kept as its lexeme. An object is a dict: a repeated key
  keeps its first place and takes the last value.
\<close>

datatype json = JNull | JBool bool | JInt int | JFloat pystr | JStr pystr
  | JArr "json list" | JObj "(pystr \<times> json) list"

definition json_ws :: "pystr \<Rightarrow> pystr" where
  "json_ws s = dropWhile (\<lambda>c. c = 32 \<or> c = 9 \<or> c = 10 \<or> c = 13) s"

definition hexval :: "nat \<Rightarrow> nat option" where
  "hexval c =
     (if 48 \<le> c \<and> c \<le> 57 then Some (c - 48)
      else if 97 \<le> c \<and> c \<le> 102 then Some (c - 87)
      else if 65 \<le> c \<and> c \<le> 70 then Some (c - 55)
      else None)"

definition hex4 :: "nat \<Rightarrow> nat \<Rightarrow> nat \<Rightarrow> nat \<Rightarrow> nat option" where
  "hex4 a b c d =
     (case (hexval a, hexval b, hexval c, hexval d) of
        (Some x, Some y, Some z, Some w) \<Rightarrow> Some (((x * 16 + y) * 16 + z) * 16 + w)
      | _ \<Rightarrow> None)"

definition escape_char :: "nat \<Rightarrow> nat option" where
  \<comment> \<open>The character after a backslash, other than \<open>u\<close>.\<close>
  "escape_char e =
     (if e = 34 \<or> e = 92 \<or> e = 47 then Some e
      else if e = 98 then Some 8
      else if e = 102 then Some 12
      else if e = 110 then Some 10
      else if e = 114 then Some 13
      else if e = 116 then Some 9
      else None)"

definition push :: "nat \<Rightarrow> exn + pystr \<times> pystr \<Rightarrow> exn + pystr \<times> pystr" where
  "push c res = (case res of Inl e \<Rightarrow> Inl e | Inr (s, r) \<Rightarrow> Inr (c # s, r))"

fun scanstring :: "pystr \<Rightarrow> exn + pystr \<times> pystr" where
  \<comment> \<open>After the opening quote: the decoded string and what follows the closing quote.\<close>
  "scanstring [] = Inl JSONDecodeError"
| "scanstring (c # cs) =
     (if c = 34 then Inr ([], cs)
      else if c = 92 then
        (case cs of
           [] \<Rightarrow> Inl JSONDecodeError
         | e # es \<Rightarrow>
             if e = 117 then
               (case es of
                  h1 # h2 # h3 # h4 # r \<Rightarrow>
                    (case hex4 h1 h2 h3 h4 of
                       None \<Rightarrow> Inl JSONDecodeError
                     | Some u \<Rightarrow>
                         if 55296 \<le> u \<and> u \<le> 56319 then
                           (case r of
                              b # v # l1 # l2 # l3 # l4 # r2 \<Rightarrow>
                                if b = 92 \<and> v = 117 then
                                  (case hex4 l1 l2 l3 l4 of
                                     None \<Rightarrow> Inl JSONDecodeError
                                   | Some u2 \<Rightarrow>
                                       if 56320 \<le> u2 \<and> u2 \<le> 57343
                                       then push (65536 + (u - 55296) * 1024 + (u2 - 56320))
                                              (scanstring r2)
                                       else push u (scanstring r))
                                else push u (scanstring r)
                            | _ \<Rightarrow> push u (scanstring r))
                         else push u (scanstring r))
                | _ \<Rightarrow> Inl JSONDecodeError)
             else
               (case escape_char e of
                  None \<Rightarrow> Inl JSONDecodeError
                | Some x \<Rightarrow> push x (scanstring es)))
      else if c < 32 then Inl JSONDecodeError
      else push c (scanstring cs))"

definition ascii_digit :: "nat \<Rightarrow> bool" where
  "ascii_digit c = (48 \<le> c \<and> c \<le> 57)"

definition match_number :: "runtime \<Rightarrow> pystr \<Rightarrow> (exn + json \<times> pystr) option" where
  \<comment> \<open>The number at the head of the text, if there is one (\<open>None\<close>: no number here).\<close>
  "match_number R s =
     (let neg = (case s of c # _ \<Rightarrow> c = 45 | [] \<Rightarrow> False);
          s1 = (if neg then tl s else s)
      in case s1 of
           [] \<Rightarrow> None
         | c # cs \<Rightarrow>
             if \<not> ascii_digit c then None
             else
               let ds = (if c = 48 then [c] else c # takeWhile ascii_digit cs);
                   r1 = (if c = 48 then cs else dropWhile ascii_digit cs);
                   frac = (case r1 of
                             dot # d # r \<Rightarrow>
                               if dot = 46 \<and> ascii_digit d then dot # d # takeWhile ascii_digit r
                               else []
                           | _ \<Rightarrow> []);
                   r2 = drop (length frac) r1;
                   ex = (case r2 of
                           e # r \<Rightarrow>
                             if e = 101 \<or> e = 69 then
                               (let sg = (case r of x # _ \<Rightarrow> if x = 45 \<or> x = 43 then [x] else []
                                          | [] \<Rightarrow> []);
                                    eds = takeWhile ascii_digit (drop (length sg) r)
                                in if eds = [] then [] else e # sg @ eds)
                             else []
                         | [] \<Rightarrow> []);
                   r3 = drop (length ex) r2
               in if frac = [] \<and> ex = [] then
                    (if 0 < int_max_str_digits R \<and> int_max_str_digits R < length ds
                     then Some (Inl ValueError)
                     else Some (Inr (JInt (if neg then - int (digits_value (map (\<lambda>c. c - 48) ds))
                                            else int (digits_value (map (\<lambda>c. c - 48) ds))), r3)))
                  else Some (Inr (JFloat ((if neg then [45] else []) @ ds @ frac @ ex), r3)))"

definition starts_with :: "string \<Rightarrow> pystr \<Rightarrow> bool" where
  "starts_with w s = (take (length w) s = codes w)"

function scan_once :: "runtime \<Rightarrow> nat \<Rightarrow> pystr \<Rightarrow> exn + json \<times> pystr"
  and parse_object :: "runtime \<Rightarrow> nat \<Rightarrow> (pystr \<times> json) list \<Rightarrow> pystr \<Rightarrow> exn + json \<times> pystr"
  and parse_array :: "runtime \<Rightarrow> nat \<Rightarrow> json list \<Rightarrow> pystr \<Rightarrow> exn + json \<times> pystr"
where
  "scan_once R d s =
     (case s of
        [] \<Rightarrow> Inl JSONDecodeError
      | c # cs \<Rightarrow>
          if c = 34 then
            (case scanstring cs of Inl e \<Rightarrow> Inl e | Inr (str, r) \<Rightarrow> Inr (JStr str, r))
          else if c = 123 then
            (case d of
               0 \<Rightarrow> Inl RecursionError
             | Suc d' \<Rightarrow>
                 (case json_ws cs of
                    [] \<Rightarrow> Inl JSONDecodeError
                  | x # r \<Rightarrow> if x = 125 then Inr (JObj [], r) else parse_object R d' [] (x # r)))
          else if c = 91 then
            (case d of
               0 \<Rightarrow> Inl RecursionError
             | Suc d' \<Rightarrow>
                 (case json_ws cs of
                    [] \<Rightarrow> Inl JSONDecodeError
                  | x # r \<Rightarrow> if x = 93 then Inr (JArr [], r) else parse_array R d' [] (x # r)))
          else if starts_with ''null'' s then Inr (JNull, drop 4 s)
          else if starts_with ''true'' s then Inr (JBool True, drop 4 s)
          else if starts_with ''false'' s then Inr (JBool False, drop 5 s)
          else if starts_with ''NaN'' s then Inr (JFloat (codes ''NaN''), drop 3 s)
          else if starts_with ''Infinity'' s then Inr (JFloat (codes ''Infinity''), drop 8 s)
          else if starts_with ''-Infinity'' s then Inr (JFloat (codes ''-Infinity''), drop 9 s)
          else (case match_number R s of None \<Rightarrow> Inl JSONDecodeError | Some res \<Rightarrow> res))"
| "parse_object R d acc s =
     (case s of
        [] \<Rightarrow> Inl JSONDecodeError
      | q # cs \<Rightarrow>
          if q \<noteq> 34 then Inl JSONDecodeError
          else
            (case scanstring cs of
               Inl e \<Rightarrow> Inl e
             | Inr (key, r1) \<Rightarrow>
                 (case json_ws r1 of
                    [] \<Rightarrow> Inl JSONDecodeError
                  | colon # r2 \<Rightarrow>
                      if colon \<noteq> 58 then Inl JSONDecodeError
                      else
                        (case scan_once R d (json_ws r2) of
                           Inl e \<Rightarrow> Inl e
                         | Inr (v, r3) \<Rightarrow>
                             (case json_ws r3 of
                                [] \<Rightarrow> Inl JSONDecodeError
                              | x # r4 \<Rightarrow>
                                  if x = 125 then Inr (JObj (AList.update key v acc), r4)
                                  else if x \<noteq> 44 then Inl JSONDecodeError
                                  else if length (json_ws r4) < length s
                                  then parse_object R d (AList.update key v acc) (json_ws r4)
                                  else Inl JSONDecodeError)))))"
| "parse_array R d acc s =
     (case scan_once R d s of
        Inl e \<Rightarrow> Inl e
      | Inr (v, r1) \<Rightarrow>
          (case json_ws r1 of
             [] \<Rightarrow> Inl JSONDecodeError
           | x # r2 \<Rightarrow>
               if x = 93 then Inr (JArr (acc @ [v]), r2)
               else if x \<noteq> 44 then Inl JSONDecodeError
               else if length (json_ws r2) < length s
               then parse_array R d (acc @ [v]) (json_ws r2)
               else Inl JSONDecodeError))"
  by pat_completeness auto
termination
  by (relation "inv_image (less_than <*lex*> less_than <*lex*> less_than)
        (\<lambda>x. case x of
           Inl (R, d, s) \<Rightarrow> (d, 0, length s)
         | Inr (Inl (R, d, acc, s)) \<Rightarrow> (d, 1, length s)
         | Inr (Inr (R, d, acc, s)) \<Rightarrow> (d, 1, length s))") auto

definition json_loads :: "runtime \<Rightarrow> pystr \<Rightarrow> exn + json" where
  "json_loads R s =
     (if take 1 s = [65279] then Inl JSONDecodeError
      else case scan_once R (json_max_depth R) (json_ws s) of
             Inl e \<Rightarrow> Inl e
           | Inr (v, r) \<Rightarrow> if json_ws r = [] then Inr v else Inl JSONDecodeError)"

definition hexdigit :: "nat \<Rightarrow> nat" where
  "hexdigit n = (if n < 10 then 48 + n else 87 + n)"

definition json_escape_char :: "nat \<Rightarrow> pystr" where
  "json_escape_char c =
     (if c = 34 then [92, 34]
      else if c = 92 then [92, 92]
      else if c = 10 then [92, 110]
      else if c = 13 then [92, 114]
      else if c = 9 then [92, 116]
      else if c = 8 then [92, 98]
      else if c = 12 then [92, 102]
      else if c < 32 then [92, 117, 48, 48, hexdigit (c div 16), hexdigit (c mod 16)]
      else [c])"

definition json_dumps_str :: "pystr \<Rightarrow> pystr" where
  "json_dumps_str s = 34 # concat (map json_escape_char s) @ [34]"

fun json_dumps_items :: "runtime \<Rightarrow> int pydict \<Rightarrow> exn + pystr" where
  "json_dumps_items R [] = Inr []"
| "json_dumps_items R ((k, v) # rest) =
     (case py_str_int R v of
        Inl e \<Rightarrow> Inl e
      | Inr ds \<Rightarrow>
          (case json_dumps_items R rest of
             Inl e \<Rightarrow> Inl e
           | Inr others \<Rightarrow>
               Inr (json_dumps_str k @ [58, 32] @ ds @ (if rest = [] then [] else [44, 32]) @ others)))"

definition json_dumps :: "runtime \<Rightarrow> int pydict \<Rightarrow> exn + pystr" where
  \<comment> \<open>\<open>json.dumps(d, ensure_ascii=False)\<close> for a dict from strings to ints.\<close>
  "json_dumps R d =
     (case json_dumps_items R d of Inl e \<Rightarrow> Inl e | Inr body \<Rightarrow> Inr ([123] @ body @ [125]))"

section \<open>The protocol codec\<close>

definition build_offer_body :: "runtime \<Rightarrow> pystr \<Rightarrow> int \<Rightarrow> pystr \<Rightarrow> int \<Rightarrow> exn + pystr" where
  "build_offer_body R need_item need_qty offer_item offer_qty =
     (case json_dumps R [(need_item, need_qty)] of
        Inl e \<Rightarrow> Inl e
      | Inr quiero \<Rightarrow>
          (case json_dumps R [(offer_item, offer_qty)] of
             Inl e \<Rightarrow> Inl e
           | Inr ofrezco \<Rightarrow>
               (case py_str_int R need_qty of
                  Inl e \<Rightarrow> Inl e
                | Inr nq \<Rightarrow>
                    (case py_str_int R offer_qty of
                       Inl e \<Rightarrow> Inl e
                     | Inr oq \<Rightarrow>
                         let line1 = codes ''[OFERTA_V1] quiero='' @ quiero
                                       @ codes '' ofrezco='' @ ofrezco;
                             line2 = codes ''Necesito '' @ nq @ [32] @ need_item
                                       @ codes '' y ofrezco '' @ oq @ [32] @ offer_item @ [46]
                         in Inr (line1 @ [10] @ line2)))))"

definition loads_pair :: "runtime \<Rightarrow> (nat \<Rightarrow> pystr) \<Rightarrow> (json pydict \<times> json pydict) option" where
  \<comment> \<open>The \<open>try\<close> block shared by the two tagged decoders: both groups decoded, both dicts.
     \<open>None\<close> where the block raises or falls through.\<close>
  "loads_pair R m =
     (case json_loads R (m 1) of
        Inl e \<Rightarrow> None
      | Inr a \<Rightarrow>
          (case json_loads R (m 2) of
             Inl e \<Rightarrow> None
           | Inr b \<Rightarrow>
               (case a of
                  JObj x \<Rightarrow> (case b of JObj y \<Rightarrow> Some (x, y) | _ \<Rightarrow> None)
                | _ \<Rightarrow> None)))"

definition parse_offer_from_text ::
  "runtime \<Rightarrow> pystr \<Rightarrow> exn + (json pydict \<times> json pydict) option" where
  "parse_offer_from_text R texto =
     (let tagged = (case re_search TAG_OFFER_RE texto of
                      None \<Rightarrow> None
                    | Some m \<Rightarrow> loads_pair R m)
      in case tagged of
           Some quiero_ofrezco \<Rightarrow> Inr (Some quiero_ofrezco)
         | None \<Rightarrow>
             (case re_search (OFFER_RE R) texto of
                None \<Rightarrow> Inr None
              | Some m2 \<Rightarrow>
                  (case py_int_str R (m2 1) of
                     Inl e \<Rightarrow> Inl e
                   | Inr need_qty \<Rightarrow>
                       let need_item = py_lower R (m2 2)
                       in (case py_int_str R (m2 3) of
                             Inl e \<Rightarrow> Inl e
                           | Inr offer_qty \<Rightarrow>
                               let offer_item = py_lower R (m2 4)
                               in Inr (Some ([(need_item, JInt need_qty)],
                                             [(offer_item, JInt offer_qty)]))))))"

definition parse_accept_from_text ::
  "runtime \<Rightarrow> pystr \<Rightarrow> exn + (json pydict \<times> json pydict) option" where
  "parse_accept_from_text R texto =
     (case re_search TAG_ACCEPT_RE texto of
        None \<Rightarrow> Inr None
      | Some m \<Rightarrow> Inr (loads_pair R m))"

definition build_accept_body :: "runtime \<Rightarrow> int pydict \<Rightarrow> int pydict \<Rightarrow> exn + pystr" where
  "build_accept_body R give_to_other expect_from_other =
     (case json_dumps R give_to_other of
        Inl e \<Rightarrow> Inl e
      | Inr te_envio \<Rightarrow>
          (case json_dumps R expect_from_other of
             Inl e \<Rightarrow> Inl e
           | Inr espero \<Rightarrow>
               (case (give_to_other, expect_from_other) of
                  ([(gk, gv)], [(ek, ev)]) \<Rightarrow>
                    (case py_str_int R gv of
                       Inl e \<Rightarrow> Inl e
                     | Inr gvs \<Rightarrow>
                         (case py_str_int R ev of
                            Inl e \<Rightarrow> Inl e
                          | Inr evs \<Rightarrow>
                              let line1 = codes ''[ACEPTO_V1] te_envio='' @ te_envio
                                            @ codes '' espero='' @ espero;
                                  line2 = codes ''Acepto tu oferta. Te envi'' @ [233, 32] @ gvs
                                            @ [32] @ gk @ codes ''. Enviame '' @ evs @ [32] @ ek
                                            @ [46]
                              in Inr (line1 @ [10] @ line2)))
                | _ \<Rightarrow> Inl ValueError)))"

definition py_int :: "runtime \<Rightarrow> json \<Rightarrow> exn + int" where
  \<comment> \<open>\<open>int(v)\<close> for a value decoded from JSON.\<close>
  "py_int R v =
     (case v of
        JInt n \<Rightarrow> Inr n
      | JBool b \<Rightarrow> Inr (if b then 1 else 0)
      | JFloat x \<Rightarrow> float_to_int R x
      | JStr s \<Rightarrow> py_int_str R s
      | _ \<Rightarrow> Inl TypeError)"

section \<open>Configuration, process state and the broker\<close>

text \<open>
  The module constants read from the environment, and \<open>ALIAS\<close> as fixed at start-up.
\<close>

record config =
  ALIAS :: pystr
  OFFER_COOLDOWN_PER_DEST :: int
  OFFER_COOLDOWN_GLOBAL :: int
  BAD_DEST_SECONDS :: int
  ALLOW_BREAK_OBJECTIVE :: bool
  ACCEPT_ANY :: bool
  CLEAN_INBOX :: bool
  MAX_MAILS :: int

text \<open>
  A mailbox entry is a dict of which the source reads \<open>remi\<close>, \<open>asunto\<close> and \<open>cuerpo\<close>,
  each a string, absent or \<open>None\<close>. A letter's body is text; the two replies of the
  settlement pass interpolate a dict into an f-string and are kept as such.
\<close>

record mail =
  m_remi :: "pystr option"
  m_asunto :: "pystr option"
  m_cuerpo :: "pystr option"

definition field_text :: "pystr option \<Rightarrow> pystr" where
  \<comment> \<open>\<open>(mail.get(key) or "").strip()\<close>\<close>
  "field_text v = py_strip (case v of None \<Rightarrow> [] | Some s \<Rightarrow> s)"

datatype carta_body = Texto pystr | Listo_te_envie "json pydict" | No_tengo_suficiente "json pydict"

datatype request =
    Post_carta pystr pystr pystr carta_body
  | Post_paquete pystr "int pydict"
  | Delete_mail pystr

datatype reply = Refused | Status nat

text \<open>
  The process state: the three rate-limiter globals and \<open>estado_cache["recursos"]\<close>.
  What the process reads from outside is given in advance: \<open>clock\<close> holds the successive
  readings of \<open>time.time()\<close> (as exact reals), \<open>network\<close> the outcome of the successive
  calls of \<open>requests.request\<close> (\<open>Refused\<close>: it raised), \<open>random_src\<close> the successive
  random draws. \<open>sent\<close> logs each request with its final outcome.
\<close>

record world =
  clock :: "nat \<Rightarrow> real"
  ticks :: nat
  network :: "nat \<Rightarrow> reply"
  calls :: nat
  random_src :: "nat \<Rightarrow> nat"
  draws :: nat
  sent :: "(request \<times> reply) list"
  LAST_OFFER_TS_DEST :: "pystr \<rightharpoonup> real"
  LAST_OFFER_TS_GLOBAL :: real
  BAD_DEST_UNTIL :: "pystr \<rightharpoonup> real"
  estado_cache_recursos :: "int pydict"

definition time_time :: "world \<Rightarrow> real \<times> world" where
  "time_time w = (clock w (ticks w), w\<lparr>ticks := Suc (ticks w)\<rparr>)"

definition randbelow :: "nat \<Rightarrow> world \<Rightarrow> nat \<times> world" where
  "randbelow n w = (random_src w (draws w) mod n, w\<lparr>draws := Suc (draws w)\<rparr>)"

fun attempts :: "nat \<Rightarrow> world \<Rightarrow> reply \<times> world" where
  \<comment> \<open>The loop of \<open>request_with_retry\<close>: the first response, or \<open>Refused\<close> after the last try.\<close>
  "attempts 0 w = (Refused, w)"
| "attempts (Suc n) w =
     (case network w (calls w) of
        Status c \<Rightarrow> (Status c, w\<lparr>calls := Suc (calls w)\<rparr>)
      | Refused \<Rightarrow> attempts n (w\<lparr>calls := Suc (calls w)\<rparr>))"

definition request_with_retry :: "request \<Rightarrow> world \<Rightarrow> (exn + nat) \<times> world" where
  "request_with_retry rq w =
     (case attempts 3 w of
        (Refused, w1) \<Rightarrow> (Inl RequestException, w1\<lparr>sent := sent w1 @ [(rq, Refused)]\<rparr>)
      | (Status c, w1) \<Rightarrow> (Inr c, w1\<lparr>sent := sent w1 @ [(rq, Status c)]\<rparr>))"

definition mark_bad :: "config \<Rightarrow> pystr \<Rightarrow> world \<Rightarrow> world" where
  \<comment> \<open>\<open>BAD_DEST_UNTIL[dest] = time.time() + BAD_DEST_SECONDS\<close>\<close>
  "mark_bad cfg dest w =
     (case time_time w of
        (now, w1) \<Rightarrow>
          w1\<lparr>BAD_DEST_UNTIL := (BAD_DEST_UNTIL w1)(dest \<mapsto> now + real_of_int (BAD_DEST_SECONDS cfg))\<rparr>)"

definition enviar_carta :: "config \<Rightarrow> pystr \<Rightarrow> pystr \<Rightarrow> carta_body \<Rightarrow> world \<Rightarrow> bool \<times> world" where
  "enviar_carta cfg dest asunto cuerpo w =
     (case request_with_retry (Post_carta (ALIAS cfg) dest asunto cuerpo) w of
        (Inl e, w1) \<Rightarrow> (False, mark_bad cfg dest w1)
      | (Inr status, w1) \<Rightarrow>
          if status = 200 then (True, w1) else (False, mark_bad cfg dest w1))"

definition borrar_mail :: "pystr \<Rightarrow> world \<Rightarrow> (exn + unit) \<times> world" where
  "borrar_mail mail_id w =
     (case request_with_retry (Delete_mail mail_id) w of
        (Inl e, w1) \<Rightarrow> (Inl e, w1)
      | (Inr status, w1) \<Rightarrow> (Inr (), w1))"

definition enviar_paquete :: "config \<Rightarrow> pystr \<Rightarrow> int pydict \<Rightarrow> world \<Rightarrow> (exn + bool) \<times> world" where
  "enviar_paquete cfg dest paquete w =
     (case request_with_retry (Post_paquete dest paquete) w of
        (Inl e, w1) \<Rightarrow> (Inl e, w1)
      | (Inr status, w1) \<Rightarrow>
          if status = 200 then (Inr True, w1) else (Inr False, mark_bad cfg dest w1))"

definition borrar_y_quitar ::
  "pystr \<Rightarrow> mail pydict \<Rightarrow> world \<Rightarrow> (exn + mail pydict) \<times> world" where
  \<comment> \<open>\<open>borrar_mail(mid); mails_by_id.pop(mid, None)\<close>\<close>
  "borrar_y_quitar mid mails w =
     (case borrar_mail mid w of
        (Inl e, w1) \<Rightarrow> (Inl e, w1)
      | (Inr u, w1) \<Rightarrow> (Inr (dict_pop mails mid), w1))"

section \<open>Automatic settlement of acceptances\<close>

fun cubre :: "runtime \<Rightarrow> int pydict \<Rightarrow> json pydict \<Rightarrow> exn + bool" where
  \<comment> \<open>The loop that computes \<open>ok_send\<close>.\<close>
  "cubre R recursos [] = Inr True"
| "cubre R recursos ((k, v) # rest) =
     (case py_int R v of
        Inl e \<Rightarrow> Inl e
      | Inr n \<Rightarrow> if dict_get recursos k 0 < n then Inr False else cubre R recursos rest)"

fun enteros :: "runtime \<Rightarrow> json pydict \<Rightarrow> int pydict \<Rightarrow> exn + int pydict" where
  \<comment> \<open>\<open>{k: int(v) for k, v in espero.items()}\<close>\<close>
  "enteros R [] acc = Inr acc"
| "enteros R ((k, v) # rest) acc =
     (case py_int R v of
        Inl e \<Rightarrow> Inl e
      | Inr n \<Rightarrow> enteros R rest (AList.update k n acc))"

definition procesar_mail ::
  "runtime \<Rightarrow> config \<Rightarrow> pystr \<times> mail \<Rightarrow> mail pydict \<Rightarrow> world \<Rightarrow> (exn + mail pydict) \<times> world" where
  \<comment> \<open>The body of the loop of \<open>procesar_mails_automaticos\<close>, for one entry of the snapshot.\<close>
  "procesar_mail R cfg entry mails w =
     (let mid = fst entry;
          remi = field_text (m_remi (snd entry));
          cuerpo = field_text (m_cuerpo (snd entry))
      in if py_lower R remi = codes ''sistema'' then
           (if CLEAN_INBOX cfg then borrar_y_quitar mid mails w else (Inr mails, w))
         else
           (case parse_accept_from_text R cuerpo of
              Inl e \<Rightarrow> (Inl e, w)
            | Inr None \<Rightarrow> (Inr mails, w)
            | Inr (Some acc) \<Rightarrow>
                if remi = [] then (Inr mails, w)
                else
                  let espero = snd acc
                  in (case cubre R (estado_cache_recursos w) espero of
                        Inl e \<Rightarrow> (Inl e, w)
                      | Inr ok_send \<Rightarrow>
                          (case (if ok_send then
                                   (case enteros R espero [] of
                                      Inl e \<Rightarrow> (Inl e, w)
                                    | Inr paquete \<Rightarrow>
                                        (case enviar_paquete cfg remi paquete w of
                                           (Inl e, w1) \<Rightarrow> (Inl e, w1)
                                         | (Inr ok, w1) \<Rightarrow>
                                             (Inr (), snd (enviar_carta cfg remi
                                                (codes ''Env'' @ [237, 111])
                                                (Listo_te_envie espero) w1))))
                                 else (Inr (), snd (enviar_carta cfg remi (codes ''No puedo'')
                                                      (No_tengo_suficiente espero) w))) of
                             (Inl e, w2) \<Rightarrow> (Inl e, w2)
                           | (Inr u, w2) \<Rightarrow>
                               if CLEAN_INBOX cfg then borrar_y_quitar mid mails w2
                               else (Inr mails, w2)))))"

fun procesar_loop ::
  "runtime \<Rightarrow> config \<Rightarrow> (pystr \<times> mail) list \<Rightarrow> mail pydict \<Rightarrow> world \<Rightarrow> (exn + mail pydict) \<times> world" where
  "procesar_loop R cfg [] mails w = (Inr mails, w)"
| "procesar_loop R cfg (entry # rest) mails w =
     (case procesar_mail R cfg entry mails w of
        (Inl e, w1) \<Rightarrow> (Inl e, w1)
      | (Inr mails1, w1) \<Rightarrow> procesar_loop R cfg rest mails1 w1)"

definition procesar_mails_automaticos ::
  "runtime \<Rightarrow> config \<Rightarrow> mail pydict \<Rightarrow> world \<Rightarrow> (exn + mail pydict) \<times> world" where
  "procesar_mails_automaticos R cfg mails_by_id w = procesar_loop R cfg mails_by_id mails_by_id w"

section \<open>Rate limiter\<close>

definition can_send_offer_now :: "config \<Rightarrow> pystr \<Rightarrow> world \<Rightarrow> bool \<times> world" where
  "can_send_offer_now cfg dest w =
     (case time_time w of
        (now, w1) \<Rightarrow>
          (if (case BAD_DEST_UNTIL w1 dest of Some until \<Rightarrow> now < until | None \<Rightarrow> False) then False
           else if now - LAST_OFFER_TS_GLOBAL w1 < real_of_int (OFFER_COOLDOWN_GLOBAL cfg) then False
           else
             let last_d = (case LAST_OFFER_TS_DEST w1 dest of Some t \<Rightarrow> t | None \<Rightarrow> 0)
             in if now - last_d < real_of_int (OFFER_COOLDOWN_PER_DEST cfg) then False else True,
           w1))"

definition mark_offer_sent :: "pystr \<Rightarrow> world \<Rightarrow> world" where
  "mark_offer_sent dest w =
     (case time_time w of
        (now, w1) \<Rightarrow>
          w1\<lparr>LAST_OFFER_TS_GLOBAL := now,
             LAST_OFFER_TS_DEST := (LAST_OFFER_TS_DEST w1)(dest \<mapsto> now)\<rparr>)"

section \<open>Deciding\<close>

datatype accion = Esperar | Ofertar pystr pystr int pystr int | Aceptar pystr

definition py_slice_from :: "int \<Rightarrow> 'a list \<Rightarrow> 'a list" where
  \<comment> \<open>\<open>xs[n:]\<close>; a negative \<open>n\<close> counts from the end.\<close>
  "py_slice_from n xs = (if 0 \<le> n then drop (nat n) xs else drop (nat (int (length xs) + n)) xs)"

fun borrar_extras :: "pystr list \<Rightarrow> mail pydict \<Rightarrow> world \<Rightarrow> (exn + mail pydict) \<times> world" where
  "borrar_extras [] mails w = (Inr mails, w)"
| "borrar_extras (mid # rest) mails w =
     (case borrar_y_quitar mid mails w of
        (Inl e, w1) \<Rightarrow> (Inl e, w1)
      | (Inr mails1, w1) \<Rightarrow> borrar_extras rest mails1 w1)"

definition limitar_buzon :: "config \<Rightarrow> mail pydict \<Rightarrow> world \<Rightarrow> (exn + mail pydict) \<times> world" where
  \<comment> \<open>The block of \<open>decidir_fallback\<close> headed \<open>limitar crecimiento de buzon\<close>.\<close>
  "limitar_buzon cfg mails_by_id w =
     (if CLEAN_INBOX cfg \<and> MAX_MAILS cfg < int (length mails_by_id)
      then borrar_extras (py_slice_from (MAX_MAILS cfg) (map fst mails_by_id)) mails_by_id w
      else (Inr mails_by_id, w))"

definition revisar_oferta ::
  "runtime \<Rightarrow> config \<Rightarrow> InfoPuesto \<Rightarrow> int pydict \<Rightarrow> pystr \<times> mail \<Rightarrow> mail pydict \<Rightarrow> world
     \<Rightarrow> (exn + accion option \<times> mail pydict) \<times> world" where
  \<comment> \<open>The body of the loop \<open>1) aceptar ofertas entrantes\<close>: \<open>Some\<close> decision where it returns,
     \<open>None\<close> where it goes on to the next entry.\<close>
  "revisar_oferta R cfg estado f entry mails w =
     (let mid = fst entry;
          remi = field_text (m_remi (snd entry));
          cuerpo = field_text (m_cuerpo (snd entry))
      in if remi = [] \<or> remi = ALIAS cfg then (Inr (None, mails), w)
         else
           (case parse_offer_from_text R cuerpo of
              Inl e \<Rightarrow> (Inl e, w)
            | Inr None \<Rightarrow> (Inr (None, mails), w)
            | Inr (Some parsed) \<Rightarrow>
                (case parsed of
                   ([(need_item, nq)], [(offer_item, oq)]) \<Rightarrow>
                     (case py_int R nq of
                        Inl e \<Rightarrow> (Inl e, w)
                      | Inr need_qty \<Rightarrow>
                          (case py_int R oq of
                             Inl e \<Rightarrow> (Inl e, w)
                           | Inr offer_qty \<Rightarrow>
                               if \<not> can_give (ALLOW_BREAK_OBJECTIVE cfg) estado need_item need_qty
                               then
                                 (if CLEAN_INBOX cfg then
                                    (case borrar_y_quitar mid mails w of
                                       (Inl e, w1) \<Rightarrow> (Inl e, w1)
                                     | (Inr mails1, w1) \<Rightarrow> (Inr (None, mails1), w1))
                                  else (Inr (None, mails), w))
                               else if ACCEPT_ANY cfg \<or> 0 < dict_get f offer_item 0
                               then (Inr (Some (Aceptar mid), mails), w)
                               else if CLEAN_INBOX cfg then
                                 (case borrar_y_quitar mid mails w of
                                    (Inl e, w1) \<Rightarrow> (Inl e, w1)
                                  | (Inr mails1, w1) \<Rightarrow> (Inr (None, mails1), w1))
                               else (Inr (None, mails), w)))
                 | _ \<Rightarrow> (Inl ValueError, w))))"

fun revisar_ofertas ::
  "runtime \<Rightarrow> config \<Rightarrow> InfoPuesto \<Rightarrow> int pydict \<Rightarrow> (pystr \<times> mail) list \<Rightarrow> mail pydict \<Rightarrow> world
     \<Rightarrow> (exn + accion option \<times> mail pydict) \<times> world" where
  "revisar_ofertas R cfg estado f [] mails w = (Inr (None, mails), w)"
| "revisar_ofertas R cfg estado f (entry # rest) mails w =
     (case revisar_oferta R cfg estado f entry mails w of
        (Inl e, w1) \<Rightarrow> (Inl e, w1)
      | (Inr (Some dec, mails1), w1) \<Rightarrow> (Inr (Some dec, mails1), w1)
      | (Inr (None, mails1), w1) \<Rightarrow> revisar_ofertas R cfg estado f rest mails1 w1)"

fun shuffle_loop :: "nat \<Rightarrow> pystr list \<Rightarrow> world \<Rightarrow> pystr list \<times> world" where
  \<comment> \<open>\<open>random.shuffle\<close>: for \<open>i\<close> from the last index down to 1, swap \<open>x[i]\<close> with \<open>x[j]\<close>,
     \<open>j\<close> drawn below \<open>i + 1\<close>.\<close>
  "shuffle_loop 0 x w = (x, w)"
| "shuffle_loop (Suc i) x w =
     (case randbelow (Suc (Suc i)) w of
        (j, w1) \<Rightarrow> shuffle_loop i (x[Suc i := x ! j, j := x ! Suc i]) w1)"

definition random_shuffle :: "pystr list \<Rightarrow> world \<Rightarrow> pystr list \<times> world" where
  "random_shuffle x w = shuffle_loop (length x - 1) x w"

definition random_choice :: "pystr list \<Rightarrow> world \<Rightarrow> pystr \<times> world" where
  \<comment> \<open>Called on non-empty lists only.\<close>
  "random_choice xs w = (case randbelow (length xs) w of (j, w1) \<Rightarrow> (xs ! j, w1))"

fun elegir_dest :: "config \<Rightarrow> pystr list \<Rightarrow> world \<Rightarrow> pystr option \<times> world" where
  "elegir_dest cfg [] w = (None, w)"
| "elegir_dest cfg (cand # rest) w =
     (case can_send_offer_now cfg cand w of
        (True, w1) \<Rightarrow> (Some cand, w1)
      | (False, w1) \<Rightarrow> elegir_dest cfg rest w1)"

definition max_key :: "int pydict \<Rightarrow> pystr" where
  \<comment> \<open>\<open>max(d, key=lambda k: d[k])\<close> on a non-empty dict: the first key of the largest value.\<close>
  "max_key d =
     fst (fold (\<lambda>kv best. if snd best < snd kv then kv else best) (tl d) (hd d))"

definition ofertar_proactivo ::
  "config \<Rightarrow> InfoPuesto \<Rightarrow> pystr list \<Rightarrow> int pydict \<Rightarrow> int pydict \<Rightarrow> world \<Rightarrow> accion \<times> world" where
  \<comment> \<open>The part of \<open>decidir_fallback\<close> headed \<open>2) ofertar proactivo\<close>.\<close>
  "ofertar_proactivo cfg estado gente f exc w =
     (let otros = filter (\<lambda>a. a \<noteq> ALIAS cfg) gente
      in if otros = [] then (Esperar, w)
         else
           (case random_shuffle otros w of
              (barajados, w1) \<Rightarrow>
                (case elegir_dest cfg barajados w1 of
                   (None, w2) \<Rightarrow> (Esperar, w2)
                 | (Some dest, w2) \<Rightarrow>
                     (case (if f \<noteq> [] then (max_key f, w2)
                            else random_choice
                                   (if Recursos estado = [] then [codes ''madera'']
                                    else map fst (Recursos estado)) w2) of
                        (need_item, w3) \<Rightarrow>
                          (case (if exc \<noteq> [] then (Some (max_key exc), w3)
                                 else
                                   let cand_items =
                                         map fst (filter (\<lambda>kv. 1 \<le> snd kv
                                            \<and> can_give (ALLOW_BREAK_OBJECTIVE cfg) estado (fst kv) 1)
                                            (Recursos estado))
                                   in if cand_items \<noteq> []
                                      then (case random_choice cand_items w3 of
                                              (it, w4) \<Rightarrow> (Some it, w4))
                                      else (None, w3)) of
                             (offer, w5) \<Rightarrow>
                               (case offer of
                                  None \<Rightarrow> (Esperar, w5)
                                | Some offer_item \<Rightarrow>
                                    if offer_item = [] \<or> offer_item = need_item then (Esperar, w5)
                                    else (Ofertar dest need_item 1 offer_item 1, w5)))))))"

definition decidir_fallback ::
  "runtime \<Rightarrow> config \<Rightarrow> InfoPuesto \<Rightarrow> pystr list \<Rightarrow> mail pydict \<Rightarrow> world
     \<Rightarrow> (exn + accion \<times> mail pydict) \<times> world" where
  "decidir_fallback R cfg estado gente mails_by_id w =
     (let f = faltantes estado;
          exc = excedentes estado
      in case limitar_buzon cfg mails_by_id w of
           (Inl e, w1) \<Rightarrow> (Inl e, w1)
         | (Inr mails1, w1) \<Rightarrow>
             (case revisar_ofertas R cfg estado f mails1 mails1 w1 of
                (Inl e, w2) \<Rightarrow> (Inl e, w2)
              | (Inr (Some dec, mails2), w2) \<Rightarrow> (Inr (dec, mails2), w2)
              | (Inr (None, mails2), w2) \<Rightarrow>
                  (case ofertar_proactivo cfg estado gente f exc w2 of
                     (dec, w3) \<Rightarrow> (Inr (dec, mails2), w3))))"

section \<open>Executing\<close>

definition ejecutar_decision ::
  "runtime \<Rightarrow> config \<Rightarrow> accion \<Rightarrow> InfoPuesto \<Rightarrow> mail pydict \<Rightarrow> world \<Rightarrow> (exn + unit) \<times> world" where
  "ejecutar_decision R cfg accion estado mails_by_id w =
     (case accion of
        Esperar \<Rightarrow> (Inr (), w)
      | Ofertar dest need_r need_c off_r off_c \<Rightarrow>
          if dest = [] \<or> need_r = [] \<or> off_r = [] \<or> need_c \<le> 0 \<or> off_c \<le> 0 then (Inr (), w)
          else
            (case can_send_offer_now cfg dest w of
               (False, w1) \<Rightarrow> (Inr (), w1)
             | (True, w1) \<Rightarrow>
                 (case build_offer_body R need_r need_c off_r off_c of
                    Inl e \<Rightarrow> (Inl e, w1)
                  | Inr cuerpo \<Rightarrow>
                      (case enviar_carta cfg dest (codes ''Oferta'') (Texto cuerpo) w1 of
                         (ok, w2) \<Rightarrow> (Inr (), if ok then mark_offer_sent dest w2 else w2))))
      | Aceptar mid \<Rightarrow>
          if mid = [] then (Inr (), w)
          else
            (case map_of mails_by_id mid of
               None \<Rightarrow> (Inr (), w)
             | Some ml \<Rightarrow>
                 let remi = field_text (m_remi ml);
                     cuerpo = field_text (m_cuerpo ml)
                 in (case parse_offer_from_text R cuerpo of
                       Inl e \<Rightarrow> (Inl e, w)
                     | Inr None \<Rightarrow> (Inr (), w)
                     | Inr (Some parsed) \<Rightarrow>
                         if remi = [] then (Inr (), w)
                         else
                           (case parsed of
                              ([(need_item, nq)], [(offer_item, oq)]) \<Rightarrow>
                                (case py_int R nq of
                                   Inl e \<Rightarrow> (Inl e, w)
                                 | Inr need_qty \<Rightarrow>
                                     (case py_int R oq of
                                        Inl e \<Rightarrow> (Inl e, w)
                                      | Inr offer_qty \<Rightarrow>
                                          if \<not> can_give (ALLOW_BREAK_OBJECTIVE cfg) estado
                                                 need_item need_qty
                                          then (if CLEAN_INBOX cfg then borrar_mail mid w
                                                else (Inr (), w))
                                          else
                                            (case enviar_paquete cfg remi [(need_item, need_qty)] w of
                                               (Inl e, w1) \<Rightarrow> (Inl e, w1)
                                             | (Inr False, w1) \<Rightarrow> (Inr (), w1)
                                             | (Inr True, w1) \<Rightarrow>
                                                 (case build_accept_body R [(need_item, need_qty)]
                                                         [(offer_item, offer_qty)] of
                                                    Inl e \<Rightarrow> (Inl e, w1)
                                                  | Inr cuerpo_acc \<Rightarrow>
                                                      (case enviar_carta cfg remi (codes ''Acepto'')
                                                              (Texto cuerpo_acc) w1 of
                                                         (ok, w2) \<Rightarrow>
                                                           if CLEAN_INBOX cfg then borrar_mail mid w2
                                                           else (Inr (), w2))))))
                            | _ \<Rightarrow> (Inl ValueError, w)))))"

section \<open>One cycle\<close>

definition ciclo ::
  "runtime \<Rightarrow> config \<Rightarrow> InfoPuesto \<Rightarrow> pystr list \<Rightarrow> mail pydict \<Rightarrow> world \<Rightarrow> (exn + accion) \<times> world" where
  \<comment> \<open>One iteration of \<open>ciclo_autonomo\<close> once the state, the peers and the mailbox are
     fetched; an exception ends the iteration (the driver logs it and goes on).\<close>
  "ciclo R cfg estado gente_cache buzon w =
     (case procesar_mails_automaticos R cfg buzon (w\<lparr>estado_cache_recursos := Recursos estado\<rparr>) of
        (Inl e, w1) \<Rightarrow> (Inl e, w1)
      | (Inr mails1, w1) \<Rightarrow>
          (case decidir_fallback R cfg estado gente_cache mails1 w1 of
             (Inl e, w2) \<Rightarrow> (Inl e, w2)
           | (Inr (dec, mails2), w2) \<Rightarrow>
               (case ejecutar_decision R cfg dec estado mails2 w2 of
                  (Inl e, w3) \<Rightarrow> (Inl e, w3)
                | (Inr u, w3) \<Rightarrow> (Inr dec, w3))))"

section \<open>Example data\<close>

text \<open>
  A configuration with the defaults of the source, and a process state at start-up
  whose clock advances one second per reading and whose broker answers 200 to every
  request. \<open>answered\<close> says that no request from now on is refused at the transport.
\<close>

definition cfg0 :: config where
  "cfg0 = \<lparr>ALIAS = codes ''yo'', OFFER_COOLDOWN_PER_DEST = 25, OFFER_COOLDOWN_GLOBAL = 10,
     BAD_DEST_SECONDS = 60, ALLOW_BREAK_OBJECTIVE = False, ACCEPT_ANY = False,
     CLEAN_INBOX = True, MAX_MAILS = 20\<rparr>"

definition w0 :: world where
  "w0 = \<lparr>clock = (\<lambda>n. 1000 + real n), ticks = 0, network = (\<lambda>n. Status 200), calls = 0,
     random_src = (\<lambda>n. n), draws = 0, sent = [],
     LAST_OFFER_TS_DEST = Map.empty, LAST_OFFER_TS_GLOBAL = 0, BAD_DEST_UNTIL = Map.empty,
     estado_cache_recursos = []\<rparr>"


text \<open>
  A runtime with the interpreter's default limits. Its tables beyond Latin-1 are empty:
  it is used on ASCII texts only, where they are not consulted.
\<close>

definition rt0 :: runtime where
  "rt0 = \<lparr>int_max_str_digits = 4300, json_max_depth = 1000, unicode_decimal = (\<lambda>c. None),
     unicode_lower = (\<lambda>s. s), float_to_int = (\<lambda>x. Inl ValueError)\<rparr>"


definition acepto1 :: mail where
  "acepto1 = \<lparr>m_remi = Some (codes ''p2''), m_asunto = Some (codes ''Acepto''),
     m_cuerpo = Some (codes ''[ACEPTO_V1] te_envio={\"madera\": 1} espero={\"oro\": 2}'')\<rparr>"

definition oferta_sistema :: mail where
  "oferta_sistema = \<lparr>m_remi = Some (codes ''sistema''), m_asunto = None,
     m_cuerpo = Some (codes ''[OFERTA_V1] quiero={\"piedra\": 1} ofrezco={\"madera\": 1}'')\<rparr>"

section \<open>Scenario A\<close>

text \<open>
  C7. With resources \<open>{"madera": 5, "oro": 10}\<close> and objective \<open>{"madera": 8}\<close>,
  \<open>faltantes\<close> is exactly \<open>{"madera": 3}\<close> and \<open>excedentes\<close> is empty.
\<close>

theorem scenario_a_faltantes_excedentes:
  "faltantes \<lparr>Alias = a, Recursos = [(codes ''madera'', 5), (codes ''oro'', 10)],
               Objetivo = [(codes ''madera'', 8)]\<rparr> = [(codes ''madera'', 3)]
   \<and> excedentes \<lparr>Alias = a, Recursos = [(codes ''madera'', 5), (codes ''oro'', 10)],
               Objetivo = [(codes ''madera'', 8)]\<rparr> = []"
  by (simp add: faltantes_def excedentes_def dict_get_def codes_def)


section \<open>Rate limiter: the cooldowns\<close>











section \<open>Mailbox capacity\<close>












section \<open>Executing an offer\<close>

lemma attempts_frame: "\<exists>n. snd (attempts k w) = w\<lparr>calls := calls w + n\<rparr>"
proof (induction k arbitrary: w)
  case 0
  have "snd (attempts 0 w) = w\<lparr>calls := calls w + 0\<rparr>" by simp
  then show ?case by blast
next
  case (Suc k)
  show ?case
  proof (cases "network w (calls w)")
    case Refused
    obtain n where "snd (attempts k (w\<lparr>calls := Suc (calls w)\<rparr>))
        = (w\<lparr>calls := Suc (calls w)\<rparr>)\<lparr>calls := calls (w\<lparr>calls := Suc (calls w)\<rparr>) + n\<rparr>"
      using Suc.IH by blast
    then have "snd (attempts (Suc k) w) = w\<lparr>calls := calls w + Suc n\<rparr>"
      using Refused by simp
    then show ?thesis by blast
  next
    case (Status c)
    then have "snd (attempts (Suc k) w) = w\<lparr>calls := calls w + 1\<rparr>" by simp
    then show ?thesis by blast
  qed
qed

lemma request_with_retry_frame:
  "\<exists>reply n. request_with_retry rq w
     = ((case reply of Refused \<Rightarrow> Inl RequestException | Status c \<Rightarrow> Inr c),
        w\<lparr>calls := calls w + n, sent := sent w @ [(rq, reply)]\<rparr>)"
proof -
  obtain reply w1 where a: "attempts 3 w = (reply, w1)"
    by (cases "attempts 3 w")
  obtain n where "w1 = w\<lparr>calls := calls w + n\<rparr>"
    using attempts_frame [of 3 w] a by auto
  then have "request_with_retry rq w
     = ((case reply of Refused \<Rightarrow> Inl RequestException | Status c \<Rightarrow> Inr c),
        w\<lparr>calls := calls w + n, sent := sent w @ [(rq, reply)]\<rparr>)"
    using a by (cases reply) (simp_all add: request_with_retry_def)
  then show ?thesis by blast
qed

lemma enviar_carta_effect:
  "\<exists>reply n. enviar_carta cfg dest asunto cuerpo w
     = (reply = Status 200,
        (if reply = Status 200 then (\<lambda>v. v) else mark_bad cfg dest)
          (w\<lparr>calls := calls w + n,
             sent := sent w @ [(Post_carta (ALIAS cfg) dest asunto cuerpo, reply)]\<rparr>))"
proof -
  obtain reply n where "request_with_retry (Post_carta (ALIAS cfg) dest asunto cuerpo) w
     = ((case reply of Refused \<Rightarrow> Inl RequestException | Status c \<Rightarrow> Inr c),
        w\<lparr>calls := calls w + n,
           sent := sent w @ [(Post_carta (ALIAS cfg) dest asunto cuerpo, reply)]\<rparr>)"
    using request_with_retry_frame by blast
  then have "enviar_carta cfg dest asunto cuerpo w
     = (reply = Status 200,
        (if reply = Status 200 then (\<lambda>v. v) else mark_bad cfg dest)
          (w\<lparr>calls := calls w + n,
             sent := sent w @ [(Post_carta (ALIAS cfg) dest asunto cuerpo, reply)]\<rparr>))"
    by (cases reply) (simp_all add: enviar_carta_def)
  then show ?thesis by blast
qed

text \<open>
  C10. Executing an \<open>ofertar\<close> decision that reaches the send: the letter is posted once,
  and \<open>ok\<close> says that the broker answered 200. When the send fails (the transport
  refused three times, or another status), \<open>mark_offer_sent\<close> is not run:
  \<open>LAST_OFFER_TS_GLOBAL\<close> and \<open>LAST_OFFER_TS_DEST\<close> are as before, and the blacklist entry
  of \<open>dest\<close> is the time read at the failure plus \<open>BAD_DEST_SECONDS\<close>. When it succeeds
  both timestamps become the time read after it and the blacklist is as before.
\<close>

theorem failed_offer_keeps_cooldown:
  assumes "dest \<noteq> []" and "need_r \<noteq> []" and "off_r \<noteq> []" and "0 < need_c" and "0 < off_c"
    and "fst (can_send_offer_now cfg dest w)"
    and "build_offer_body R need_r need_c off_r off_c = Inr cuerpo"
    and "ok = fst (enviar_carta cfg dest (codes ''Oferta'') (Texto cuerpo)
                     (snd (can_send_offer_now cfg dest w)))"
    and "w' = snd (ejecutar_decision R cfg (Ofertar dest need_r need_c off_r off_c) estado mails_by_id w)"
  shows "(\<exists>reply. sent w' = sent w @ [(Post_carta (ALIAS cfg) dest (codes ''Oferta'') (Texto cuerpo), reply)]
            \<and> ok = (reply = Status 200))
       \<and> (\<not> ok \<longrightarrow> LAST_OFFER_TS_GLOBAL w' = LAST_OFFER_TS_GLOBAL w
               \<and> LAST_OFFER_TS_DEST w' = LAST_OFFER_TS_DEST w
               \<and> BAD_DEST_UNTIL w' = (BAD_DEST_UNTIL w)
                    (dest \<mapsto> clock w (Suc (ticks w)) + real_of_int (BAD_DEST_SECONDS cfg)))
       \<and> (ok \<longrightarrow> LAST_OFFER_TS_GLOBAL w' = clock w (Suc (ticks w))
               \<and> LAST_OFFER_TS_DEST w' = (LAST_OFFER_TS_DEST w)(dest \<mapsto> clock w (Suc (ticks w)))
               \<and> BAD_DEST_UNTIL w' = BAD_DEST_UNTIL w)"
proof -
  let ?w1 = "w\<lparr>ticks := Suc (ticks w)\<rparr>"
  have cs: "can_send_offer_now cfg dest w = (True, ?w1)"
    using assms(6) by (simp add: can_send_offer_now_def time_time_def split: if_splits)
  obtain reply n where ec: "enviar_carta cfg dest (codes ''Oferta'') (Texto cuerpo) ?w1
     = (reply = Status 200,
        (if reply = Status 200 then (\<lambda>v. v) else mark_bad cfg dest)
          (?w1\<lparr>calls := calls ?w1 + n,
             sent := sent ?w1 @ [(Post_carta (ALIAS cfg) dest (codes ''Oferta'') (Texto cuerpo), reply)]\<rparr>))"
    using enviar_carta_effect by blast
  have ok: "ok = (reply = Status 200)"
    using assms(8) by (simp add: cs ec)
  have w': "w' = (if reply = Status 200
        then mark_offer_sent dest
          (?w1\<lparr>calls := calls ?w1 + n,
             sent := sent ?w1 @ [(Post_carta (ALIAS cfg) dest (codes ''Oferta'') (Texto cuerpo), reply)]\<rparr>)
        else mark_bad cfg dest
          (?w1\<lparr>calls := calls ?w1 + n,
             sent := sent ?w1 @ [(Post_carta (ALIAS cfg) dest (codes ''Oferta'') (Texto cuerpo), reply)]\<rparr>))"
    using assms(1-5,7,9) by (simp add: ejecutar_decision_def cs ec)
  show ?thesis
    unfolding ok w' by (simp add: mark_offer_sent_def mark_bad_def time_time_def)
qed


theorem failed_offer_keeps_cooldown_witness:
  "LAST_OFFER_TS_GLOBAL (snd (ejecutar_decision rt0 cfg0
       (Ofertar (codes ''p2'') (codes ''madera'') 1 (codes ''piedra'') 1)
       \<lparr>Alias = codes ''yo'', Recursos = [], Objetivo = []\<rparr> []
       (w0\<lparr>network := \<lambda>n. Status 500\<rparr>))) = 0
   \<and> LAST_OFFER_TS_DEST (snd (ejecutar_decision rt0 cfg0
       (Ofertar (codes ''p2'') (codes ''madera'') 1 (codes ''piedra'') 1)
       \<lparr>Alias = codes ''yo'', Recursos = [], Objetivo = []\<rparr> []
       (w0\<lparr>network := \<lambda>n. Status 500\<rparr>))) = Map.empty
   \<and> BAD_DEST_UNTIL (snd (ejecutar_decision rt0 cfg0
       (Ofertar (codes ''p2'') (codes ''madera'') 1 (codes ''piedra'') 1)
       \<lparr>Alias = codes ''yo'', Recursos = [], Objetivo = []\<rparr> []
       (w0\<lparr>network := \<lambda>n. Status 500\<rparr>))) = [codes ''p2'' \<mapsto> 1061]"
proof -
  let ?w = "w0\<lparr>network := \<lambda>n. Status 500\<rparr>"
  obtain cuerpo where b: "build_offer_body rt0 (codes ''madera'') 1 (codes ''piedra'') 1 = Inr cuerpo"
    by (simp add: build_offer_body_def json_dumps_def py_str_int_def rt0_def)
  have c: "fst (can_send_offer_now cfg0 (codes ''p2'') ?w)"
    by (simp add: can_send_offer_now_def time_time_def cfg0_def w0_def)
  have o: "\<not> fst (enviar_carta cfg0 (codes ''p2'') (codes ''Oferta'') (Texto cuerpo)
                     (snd (can_send_offer_now cfg0 (codes ''p2'') ?w)))"
    by (simp add: enviar_carta_def request_with_retry_def numeral_3_eq_3 can_send_offer_now_def
          time_time_def w0_def)
  show ?thesis
    using failed_offer_keeps_cooldown [OF _ _ _ _ _ c b refl refl,
        of "\<lparr>Alias = codes ''yo'', Recursos = [], Objetivo = []\<rparr>" "[]"] o
    by (simp add: codes_def cfg0_def w0_def)
qed

section \<open>Evaluating on concrete input\<close>

lemmas re_defs = TAG_OFFER_RE_def TAG_ACCEPT_RE_def OFFER_RE_def lit_def braces_def spaces1_def
  number1_def item1_def o_or_a_def ci_def sre_lower_def is_space_def item_char_def codes_def
  is_decimal_def decimal_value_def re_search_def re_group_def

lemmas json_defs = json_loads_def json_ws_def match_number_def ascii_digit_def starts_with_def
  digits_value_def push_def hex4_def hexval_def escape_char_def

lemmas codec_defs = parse_offer_from_text_def parse_accept_from_text_def loads_pair_def
  py_int_str_def int_space_def py_lower_def latin1_lower_def rt0_def

lemma request_with_retry_status:
  assumes "network w (calls w) = Status c"
  shows "request_with_retry rq w
      = (Inr c, w\<lparr>calls := Suc (calls w), sent := sent w @ [(rq, Status c)]\<rparr>)"
  by (simp add: request_with_retry_def numeral_3_eq_3 assms)

lemmas fx_defs = procesar_mails_automaticos_def procesar_mail_def field_text_def py_strip_def
  py_int_def enviar_paquete_def enviar_carta_def request_with_retry_status [where c = 200]
  borrar_y_quitar_def borrar_mail_def dict_get_def dict_pop_def cfg0_def w0_def acepto1_def
  oferta_sistema_def Let_def

lemmas dec_defs = ciclo_def decidir_fallback_def limitar_buzon_def revisar_oferta_def
  ofertar_proactivo_def ejecutar_decision_def faltantes_def excedentes_def can_give_def
  build_accept_body_def json_dumps_def json_dumps_str_def json_escape_char_def py_str_int_def

section \<open>Automatic settlement\<close>















section \<open>Mail from the system\<close>

text \<open>
  The settlement pass never looks at the body of an entry sent by the system: what it
  does with the entry depends on \<open>CLEAN_INBOX\<close> only.
\<close>

lemma system_mail_not_decoded:
  assumes "py_lower R (field_text (m_remi ml)) = codes ''sistema''"
  shows "procesar_mail R cfg (mid, ml) mails w
     = (if CLEAN_INBOX cfg then borrar_y_quitar mid mails w else (Inr mails, w))"
  using assms by (simp add: procesar_mail_def)

text \<open>
  C8. The scan for offers of \<open>decidir_fallback\<close> skips entries without a sender and
  the agent's own, not the system's. With cleanup disabled the settlement pass leaves
  the system's entry in the mailbox, and the same cycle decodes its body as an offer,
  accepts it and posts the package to \<open>sistema\<close>.
\<close>

theorem system_offer_accepted_without_cleanup:
  "fst (ciclo rt0 (cfg0\<lparr>CLEAN_INBOX := False\<rparr>)
         \<lparr>Alias = codes ''yo'', Recursos = [(codes ''piedra'', 5)], Objetivo = [(codes ''madera'', 2)]\<rparr>
         [codes ''p2''] [(codes ''m1'', oferta_sistema)] w0) = Inr (Aceptar (codes ''m1''))
   \<and> fst (hd (sent (snd (ciclo rt0 (cfg0\<lparr>CLEAN_INBOX := False\<rparr>)
         \<lparr>Alias = codes ''yo'', Recursos = [(codes ''piedra'', 5)], Objetivo = [(codes ''madera'', 2)]\<rparr>
         [codes ''p2''] [(codes ''m1'', oferta_sistema)] w0))))
       = Post_paquete (codes ''sistema'') [(codes ''piedra'', 1)]"
  by (simp add: re_defs json_defs codec_defs fx_defs dec_defs)

end
